theory Spec2Isabelle
  imports Main "HOL-Library.Word"
begin

section \<open>Values shared with the standard library\<close>

text \<open>
  Go errors. \<open>DeadlineExceeded\<close> and \<open>Canceled\<close> are the two sentinel values of
  package context; \<open>ErrorString\<close> is any other leaf error, identified by its text;
  \<open>Wrapped\<close> is an error of the library that carries another one and unwraps to it
  (\<open>*url.Error\<close>, \<open>*net.OpError\<close>). The last three are the errors the
  constructors of the balancer build:
  \<^item> \<open>ErrTooFewBackends\<close> is
    \<^verbatim>\<open>errors.New("at least 2 backends are required for load balancing")\<close>;
  \<^item> \<open>ErrInvalidBackendURL b err\<close> is
    \<^verbatim>\<open>fmt.Errorf("invalid backend URL %q: %w", b, err)\<close>, which unwraps to \<open>err\<close>;
  \<^item> \<open>ErrBackendScheme b\<close> is
    \<^verbatim>\<open>fmt.Errorf("backend %q must use http/https", b)\<close>.
\<close>

datatype go_error =
    DeadlineExceeded
  | Canceled
  | ErrorString string
  | Wrapped string go_error
  | ErrTooFewBackends
  | ErrInvalidBackendURL string go_error
  | ErrBackendScheme string

text \<open>\<^verbatim>\<open>errors.Is(err, target)\<close>: \<open>err\<close> or an error in its unwrap chain equals \<open>target\<close>.\<close>

fun errors_Is :: "go_error \<Rightarrow> go_error \<Rightarrow> bool" where
  "errors_Is (Wrapped m e) target = (Wrapped m e = target \<or> errors_Is e target)"
| "errors_Is (ErrInvalidBackendURL b e) target =
     (ErrInvalidBackendURL b e = target \<or> errors_Is e target)"
| "errors_Is err target = (err = target)"

text \<open>\<^verbatim>\<open>time.Duration\<close>: a count of nanoseconds.\<close>

type_synonym duration = int

definition Second :: duration where
  "Second = 1000000000"

text \<open>The fields of \<^verbatim>\<open>url.URL\<close> that \<^verbatim>\<open>url.Parse\<close> fills for a URL without userinfo.\<close>

record url =
  Scheme :: string
  Opaque :: string
  Host :: string
  Path :: string
  ForceQuery :: bool
  RawQuery :: string
  Fragment :: string
  OmitHost :: bool

text \<open>
  Package net/url, net/http and net/textproto are not part of the repository. The
  functions of theirs that the balancer calls are parameters of the model, collected in
  one record: \<open>Parse\<close> is \<^verbatim>\<open>url.Parse\<close>, \<open>URLString\<close> is \<^verbatim>\<open>(*url.URL).String\<close>,
  \<open>ValidMethod\<close> is the method check of \<^verbatim>\<open>http.NewRequestWithContext\<close> and
  \<open>CanonicalKey\<close> is \<^verbatim>\<open>textproto.CanonicalMIMEHeaderKey\<close>, which \<^verbatim>\<open>Header.Add\<close>,
  \<^verbatim>\<open>Header.Set\<close> and \<^verbatim>\<open>Header.Del\<close> apply to their key.
\<close>

record stdlib =
  Parse :: "string \<Rightarrow> go_error + url"
  URLString :: "url \<Rightarrow> string"
  ValidMethod :: "string \<Rightarrow> bool"
  CanonicalKey :: "string \<Rightarrow> string"

section \<open>The balancer\<close>

text \<open>The settings \<^verbatim>\<open>New\<close> and \<^verbatim>\<open>NewLB\<close> give the \<^verbatim>\<open>http.Client\<close> they build.\<close>

record Client =
  MaxIdleConns :: nat
  MaxIdleConnsPerHost :: nat
  IdleConnTimeout :: duration
  DialTimeout :: duration
  DialKeepAlive :: duration

definition new_client :: Client where
  "new_client =
     \<lparr>MaxIdleConns = 30, MaxIdleConnsPerHost = 30, IdleConnTimeout = 90 * Second,
      DialTimeout = 5 * Second, DialKeepAlive = 10 * Second\<rparr>"

record LoadBalancer =
  backends :: "url list"
  counter :: "64 word"
  timeout :: duration
  client :: Client

text \<open>
  The loop of \<^verbatim>\<open>New\<close> (package lb) over the backend strings; \<open>parsedURLs\<close> is the
  slice built so far.
\<close>

fun New_parse :: "stdlib \<Rightarrow> string list \<Rightarrow> url list \<Rightarrow> go_error + url list" where
  "New_parse lib [] parsedURLs = Inr parsedURLs"
| "New_parse lib (b # bs) parsedURLs =
     (case Parse lib b of
        Inl err \<Rightarrow> Inl (ErrInvalidBackendURL b err)
      | Inr u \<Rightarrow>
          if Scheme u \<noteq> ''http'' \<and> Scheme u \<noteq> ''https'' then Inl (ErrBackendScheme b)
          else New_parse lib bs (parsedURLs @ [u]))"

text \<open>\<^verbatim>\<open>lb.New(backends, timeout)\<close>; a nil \<open>timeout\<close> is \<open>None\<close>.\<close>

definition New :: "stdlib \<Rightarrow> string list \<Rightarrow> duration option \<Rightarrow> go_error + LoadBalancer" where
  "New lib bs tmo =
     (if length bs < 2 then Inl ErrTooFewBackends
      else case New_parse lib bs [] of
        Inl err \<Rightarrow> Inl err
      | Inr parsedURLs \<Rightarrow>
          let defaultTimeout = 5 * Second;
              t = (case tmo of None \<Rightarrow> defaultTimeout | Some d \<Rightarrow> d)
          in Inr \<lparr>backends = parsedURLs, counter = 0, timeout = t, client = new_client\<rparr>)"

text \<open>The loop of \<^verbatim>\<open>NewLB\<close> (package main): it parses and does not look at the scheme.\<close>

fun NewLB_parse :: "stdlib \<Rightarrow> string list \<Rightarrow> url list \<Rightarrow> go_error + url list" where
  "NewLB_parse lib [] parsedURLs = Inr parsedURLs"
| "NewLB_parse lib (b # bs) parsedURLs =
     (case Parse lib b of
        Inl err \<Rightarrow> Inl (ErrInvalidBackendURL b err)
      | Inr u \<Rightarrow> NewLB_parse lib bs (parsedURLs @ [u]))"

definition NewLB :: "stdlib \<Rightarrow> string list \<Rightarrow> duration option \<Rightarrow> go_error + LoadBalancer" where
  "NewLB lib bs tmo =
     (if length bs < 2 then Inl ErrTooFewBackends
      else case NewLB_parse lib bs [] of
        Inl err \<Rightarrow> Inl err
      | Inr parsedURLs \<Rightarrow>
          let defaultTimeout = 5 * Second;
              t = (case tmo of None \<Rightarrow> defaultTimeout | Some d \<Rightarrow> d)
          in Inr \<lparr>backends = parsedURLs, counter = 0, timeout = t, client = new_client\<rparr>)"

text \<open>The run-time panics the selection could raise.\<close>

datatype panic = DivideByZero | IndexOutOfRange

text \<open>
  \<^verbatim>\<open>getNextBackend\<close>, the same text in package lb and in package main.
  \<^verbatim>\<open>atomic.AddUint64(&lb.counter, 1)\<close> stores and returns the
  incremented counter, a 64-bit unsigned value that wraps around; \<^verbatim>\<open>uint64(len(...))\<close>
  is \<open>of_nat\<close> of the length; \<^verbatim>\<open>%\<close> by zero and an index past the end of the slice
  panic. The result is the selected backend, or the panic, and the balancer with the
  counter advanced.
\<close>

definition getNextBackend :: "LoadBalancer \<Rightarrow> (panic + url) \<times> LoadBalancer" where
  "getNextBackend lb =
     (let n = counter lb + 1;
          lb' = lb\<lparr>counter := n\<rparr>;
          idx = n - 1;
          len = (of_nat (length (backends lb)) :: 64 word)
      in if len = 0 then (Inl DivideByZero, lb')
         else let i = unat (idx mod len)
              in if i < length (backends lb) then (Inr (backends lb ! i), lb')
                 else (Inl IndexOutOfRange, lb'))"

text \<open>The balancer after \<open>k\<close> calls of \<^verbatim>\<open>getNextBackend\<close> issued one after the other.\<close>

fun after_calls :: "nat \<Rightarrow> LoadBalancer \<Rightarrow> LoadBalancer" where
  "after_calls 0 lb = lb"
| "after_calls (Suc k) lb = snd (getNextBackend (after_calls k lb))"

text \<open>What call number \<open>k\<close> (counted from 0) returns.\<close>

definition kth_call :: "LoadBalancer \<Rightarrow> nat \<Rightarrow> panic + url" where
  "kth_call lb k = fst (getNextBackend (after_calls k lb))"

section \<open>Requests, responses and the response writer\<close>

text \<open>
  A header is Go's \<^verbatim>\<open>map[string][]string\<close>. A body is a stream: the chunks its reads
  deliver, then the end of the stream (\<open>None\<close>, \<^verbatim>\<open>io.EOF\<close>) or the error that cut it
  short. Bytes are \<open>char\<close>s.
\<close>

type_synonym header = "string \<rightharpoonup> string list"

datatype body = Body (chunks: "string list") (read_error: "go_error option")

text \<open>
  \<^verbatim>\<open>http.Request\<close>, with the fields the handler reads and sets. \<open>RequestTimeout\<close> is
  the time the request's context leaves to it, \<open>None\<close> when the context has no
  deadline.
\<close>

record Request =
  Method :: string
  URL :: url
  RequestURI :: string
  RequestHost :: string
  RequestHeader :: header
  RequestBody :: body
  RequestTimeout :: "duration option"

text \<open>
  \<^verbatim>\<open>http.Response\<close>. \<open>ResponseHeader\<close> lists the entries of the header map in the
  order in which the \<^verbatim>\<open>range\<close> loop of the handler visits them, which Go leaves open;
  the keys of a map are distinct.
\<close>

record Response =
  StatusCode :: int
  ResponseHeader :: "(string \<times> string list) list"
  ResponseBody :: body

text \<open>
  \<^verbatim>\<open>http.ResponseWriter\<close> as the caller observes it: the header map, the status code
  once it is written, and the bytes written so far.
\<close>

record ResponseWriter =
  header :: header
  status :: "int option"
  written :: string

definition new_writer :: ResponseWriter where
  "new_writer = \<lparr>header = Map.empty, status = None, written = []\<rparr>"

definition Header_Add :: "stdlib \<Rightarrow> header \<Rightarrow> string \<Rightarrow> string \<Rightarrow> header" where
  "Header_Add lib h key v =
     (let k = CanonicalKey lib key
      in h(k \<mapsto> (case h k of None \<Rightarrow> [v] | Some vs \<Rightarrow> vs @ [v])))"

definition Header_Set :: "stdlib \<Rightarrow> header \<Rightarrow> string \<Rightarrow> string \<Rightarrow> header" where
  "Header_Set lib h key v = h(CanonicalKey lib key \<mapsto> [v])"

definition Header_Del :: "stdlib \<Rightarrow> header \<Rightarrow> string \<Rightarrow> header" where
  "Header_Del lib h key = h(CanonicalKey lib key := None)"

text \<open>
  \<^verbatim>\<open>w.WriteHeader(code)\<close>: the first call fixes the status, a later one changes
  nothing. The writer of the server refuses a code that is not a three-digit HTTP
  status code; the handler passes it the constants 500, 502 and 504 and the status
  code of a response, and the model leaves that check out.
\<close>

definition WriteHeader :: "ResponseWriter \<Rightarrow> int \<Rightarrow> ResponseWriter" where
  "WriteHeader w code = (if status w = None then w\<lparr>status := Some code\<rparr> else w)"

text \<open>\<^verbatim>\<open>w.Write(p)\<close>: writes status 200 first when no status is written yet.\<close>

definition Write :: "ResponseWriter \<Rightarrow> string \<Rightarrow> ResponseWriter" where
  "Write w p = (let w' = WriteHeader w 200 in w'\<lparr>written := written w' @ p\<rparr>)"

text \<open>
  \<^verbatim>\<open>http.Error(w, error, code)\<close>: drops a Content-Length, sets the two headers of a
  plain-text reply, writes the status and the message followed by a newline.
\<close>

definition http_Error :: "stdlib \<Rightarrow> ResponseWriter \<Rightarrow> string \<Rightarrow> int \<Rightarrow> ResponseWriter" where
  "http_Error lib w msg code =
     (let h1 = Header_Del lib (header w) ''Content-Length'';
          h2 = Header_Set lib h1 ''Content-Type'' ''text/plain; charset=utf-8'';
          h3 = Header_Set lib h2 ''X-Content-Type-Options'' ''nosniff'';
          w1 = WriteHeader (w\<lparr>header := h3\<rparr>) code
      in Write w1 (msg @ [CHR 0x0A]))"

text \<open>
  \<^verbatim>\<open>io.Copy(w, body)\<close>: writes every chunk the body delivers, in order, and returns the
  writer, the number of bytes copied and the error that ended the stream, if any.
  A write to the caller succeeds in the model: what the writer holds is what the
  handler sent.
\<close>

definition io_Copy :: "ResponseWriter \<Rightarrow> body \<Rightarrow> ResponseWriter \<times> int \<times> go_error option" where
  "io_Copy w b =
     (fold (\<lambda>p w'. Write w' p) (chunks b) w, int (length (concat (chunks b))), read_error b)"

text \<open>
  \<^verbatim>\<open>http.NewRequestWithContext(ctx, method, url, body)\<close> of the library: an empty method
  is GET; the method must be a token; the URL must parse; a port that is only a colon
  is dropped from the host; the header of the new request is empty.
\<close>

definition removeEmptyPort :: "string \<Rightarrow> string" where
  "removeEmptyPort h = (if h \<noteq> [] \<and> last h = CHR '':'' then butlast h else h)"

definition NewRequestWithContext ::
  "stdlib \<Rightarrow> duration option \<Rightarrow> string \<Rightarrow> string \<Rightarrow> body \<Rightarrow> go_error + Request" where
  "NewRequestWithContext lib ctx method urlstr b =
     (let m = (if method = [] then ''GET'' else method)
      in if \<not> ValidMethod lib m then Inl (ErrorString ''net/http: invalid method'')
         else case Parse lib urlstr of
           Inl err \<Rightarrow> Inl err
         | Inr u \<Rightarrow>
             let u' = u\<lparr>Host := removeEmptyPort (Host u)\<rparr>
             in Inr \<lparr>Method = m, URL = u', RequestURI = [], RequestHost = Host u',
                     RequestHeader = Map.empty, RequestBody = b, RequestTimeout = ctx\<rparr>)"

section \<open>The handler\<close>

text \<open>
  The lines the handler logs, by call: \<open>LogCreateFailed host err\<close> is the
  \<^verbatim>\<open>log.Errorf\<close> of the first branch, \<open>LogTimeout host seconds\<close> the \<^verbatim>\<open>log.Warnf\<close> of
  the timeout branch, \<open>LogRequestFailed host err\<close> the \<^verbatim>\<open>log.Errorf\<close> of the other
  failures, and \<open>LogForwarded method host status ms\<close> the \<^verbatim>\<open>log.Infof\<close> of a relayed
  response.
\<close>

datatype log_entry =
    LogCreateFailed string go_error
  | LogTimeout string int
  | LogRequestFailed string go_error
  | LogForwarded string string int int

text \<open>Go's integer division truncates towards zero.\<close>

definition go_div :: "int \<Rightarrow> int \<Rightarrow> int" where
  "go_div a b = sgn a * sgn b * (\<bar>a\<bar> div \<bar>b\<bar>)"

text \<open>
  \<^verbatim>\<open>int(elapsed.Seconds())\<close>, the whole seconds of a duration, and
  \<^verbatim>\<open>elapsed.Milliseconds()\<close>. \<^verbatim>\<open>Seconds\<close> goes through a float64 and the
  conversion back drops the fraction; for the durations a request can last (up to
  months) the float64 keeps the nanoseconds apart and the value is the quotient
  below.
\<close>

definition whole_seconds :: "duration \<Rightarrow> int" where
  "whole_seconds d = go_div d Second"

definition Milliseconds :: "duration \<Rightarrow> int" where
  "Milliseconds d = go_div d 1000000"

text \<open>The verb \<^verbatim>\<open>%d\<close> of package fmt on an integer.\<close>

fun decimal :: "nat \<Rightarrow> string" where
  "decimal n =
     (if n < 10 then [char_of (48 + n)] else decimal (n div 10) @ [char_of (48 + n mod 10)])"

definition fmt_d :: "int \<Rightarrow> string" where
  "fmt_d i = (if i < 0 then CHR ''-'' # decimal (nat (- i)) else decimal (nat i))"

text \<open>
  The deadline of \<^verbatim>\<open>context.WithTimeout(r.Context(), lb.timeout)\<close>: the earlier of the
  parent's and the balancer's.
\<close>

definition WithTimeout :: "duration option \<Rightarrow> duration \<Rightarrow> duration option" where
  "WithTimeout parent d = (case parent of None \<Rightarrow> Some d | Some p \<Rightarrow> Some (min p d))"

text \<open>What one call of the handler leaves behind.\<close>

record served =
  writer :: ResponseWriter
  sent :: "Request option"
  logged :: "log_entry list"

text \<open>The two loops that copy the response header into the writer's.\<close>

definition copy_header :: "stdlib \<Rightarrow> (string \<times> string list) list \<Rightarrow> header \<Rightarrow> header" where
  "copy_header lib hs h = fold (\<lambda>(k, v) h'. fold (\<lambda>vv h''. Header_Add lib h'' k vv) v h') hs h"

text \<open>
  \<^verbatim>\<open>ServeHTTP\<close>, the same text in package lb and in package main, in two parts:
  the selection of the target, and everything the handler does once it has one.
  \<open>Do\<close> is what \<^verbatim>\<open>lb.client.Do\<close> answers to the request it is given (the network
  and the backend are outside the program) and \<open>elapsed\<close> is the
  \<^verbatim>\<open>time.Since(start)\<close> measured around it. The value of \<^verbatim>\<open>io.Copy\<close> is dropped,
  as in the source.
\<close>

definition relay :: "stdlib \<Rightarrow> ResponseWriter \<Rightarrow> Response \<Rightarrow> ResponseWriter" where
  "relay lib w resp =
     (let w1 = w\<lparr>header := copy_header lib (ResponseHeader resp) (header w)\<rparr>;
          w2 = WriteHeader w1 (StatusCode resp)
      in fst (io_Copy w2 (ResponseBody resp)))"

definition ServeHTTP_target ::
  "stdlib \<Rightarrow> (Request \<Rightarrow> go_error + Response) \<Rightarrow> duration \<Rightarrow>
   LoadBalancer \<Rightarrow> url \<Rightarrow> ResponseWriter \<Rightarrow> Request \<Rightarrow> served" where
  "ServeHTTP_target lib Do elapsed lb target w r =
     (let ctx = WithTimeout (RequestTimeout r) (timeout lb)
      in (case NewRequestWithContext lib ctx (Method r)
                 (URLString lib target @ RequestURI r) (RequestBody r) of
            Inl err \<Rightarrow>
              \<lparr>writer = http_Error lib w ''Failed to create request'' 500,
               sent = None,
               logged = [LogCreateFailed (Host target) err]\<rparr>
          | Inr req0 \<Rightarrow>
              (let req = req0\<lparr>RequestHeader := RequestHeader r\<rparr>
               in (case Do req of
                     Inl err \<Rightarrow>
                       (if errors_Is err DeadlineExceeded then
                          \<lparr>writer = http_Error lib w
                             (''Backend request timed out after '' @
                              fmt_d (whole_seconds elapsed) @ ''s'') 504,
                           sent = Some req,
                           logged = [LogTimeout (Host target) (whole_seconds elapsed)]\<rparr>
                        else
                          \<lparr>writer = http_Error lib w ''Service temporarily unavailable'' 502,
                           sent = Some req,
                           logged = [LogRequestFailed (Host target) err]\<rparr>)
                   | Inr resp \<Rightarrow>
                       \<lparr>writer = relay lib w resp,
                        sent = Some req,
                        logged = [LogForwarded (Method r) (Host target)
                                    (StatusCode resp) (Milliseconds elapsed)]\<rparr>))))"

definition ServeHTTP ::
  "stdlib \<Rightarrow> (Request \<Rightarrow> go_error + Response) \<Rightarrow> duration \<Rightarrow>
   LoadBalancer \<Rightarrow> ResponseWriter \<Rightarrow> Request \<Rightarrow> (panic + served) \<times> LoadBalancer" where
  "ServeHTTP lib Do elapsed lb w r =
     (case getNextBackend lb of
        (Inl p, lb') \<Rightarrow> (Inl p, lb')
      | (Inr target, lb') \<Rightarrow> (Inr (ServeHTTP_target lib Do elapsed lb target w r), lb'))"

section \<open>The library functions, for evaluation\<close>

text \<open>
  The theorems below hold for every value of the \<open>stdlib\<close> parameters. To run the
  model on concrete strings, this section gives the parameters a value that follows
  the algorithms of the Go library. \<open>url_Parse\<close> and \<open>url_String\<close> agree with
  \<^verbatim>\<open>url.Parse\<close> and \<^verbatim>\<open>(*url.URL).String\<close> on URLs without userinfo, without
  percent-escapes and without characters that the library would escape or refuse in
  a host; such URLs are left out because the claims do not depend on them.
\<close>

definition is_letter :: "char \<Rightarrow> bool" where
  "is_letter c =
     ((97 \<le> (of_char c :: nat) \<and> (of_char c :: nat) \<le> 122) \<or>
      (65 \<le> (of_char c :: nat) \<and> (of_char c :: nat) \<le> 90))"

definition is_digit :: "char \<Rightarrow> bool" where
  "is_digit c = (48 \<le> (of_char c :: nat) \<and> (of_char c :: nat) \<le> 57)"

definition is_upper :: "char \<Rightarrow> bool" where
  "is_upper c = (65 \<le> (of_char c :: nat) \<and> (of_char c :: nat) \<le> 90)"

definition is_lower :: "char \<Rightarrow> bool" where
  "is_lower c = (97 \<le> (of_char c :: nat) \<and> (of_char c :: nat) \<le> 122)"

definition to_lower :: "char \<Rightarrow> char" where
  "to_lower c = (if is_upper c then char_of ((of_char c :: nat) + 32) else c)"

definition to_upper :: "char \<Rightarrow> char" where
  "to_upper c = (if is_lower c then char_of ((of_char c :: nat) - 32) else c)"

text \<open>\<^verbatim>\<open>strings.Cut(s, sep)\<close> for a separator of one byte: before, after, found.\<close>

fun Cut :: "string \<Rightarrow> char \<Rightarrow> string \<times> string \<times> bool" where
  "Cut [] sep = ([], [], False)"
| "Cut (c # cs) sep =
     (if c = sep then ([], cs, True)
      else (case Cut cs sep of (before, after, found) \<Rightarrow> (c # before, after, found)))"

definition HasPrefix :: "string \<Rightarrow> string \<Rightarrow> bool" where
  "HasPrefix s p = (take (length p) s = p)"

text \<open>
  \<^verbatim>\<open>getScheme\<close> of net/url; \<open>pre\<close> holds the bytes already read, so that the
  test \<^verbatim>\<open>i == 0\<close> of the library is \<open>pre = []\<close>.
\<close>

fun getScheme_from :: "string \<Rightarrow> string \<Rightarrow> string \<Rightarrow> go_error + string \<times> string" where
  "getScheme_from rawURL pre [] = Inr ([], rawURL)"
| "getScheme_from rawURL pre (c # cs) =
     (if is_letter c then getScheme_from rawURL (pre @ [c]) cs
      else if is_digit c \<or> c = CHR ''+'' \<or> c = CHR ''-'' \<or> c = CHR ''.'' then
        (if pre = [] then Inr ([], rawURL) else getScheme_from rawURL (pre @ [c]) cs)
      else if c = CHR '':'' then
        (if pre = [] then Inl (ErrorString ''missing protocol scheme'') else Inr (pre, cs))
      else Inr ([], rawURL))"

definition getScheme :: "string \<Rightarrow> go_error + string \<times> string" where
  "getScheme rawURL = getScheme_from rawURL [] rawURL"

definition stringContainsCTLByte :: "string \<Rightarrow> bool" where
  "stringContainsCTLByte s = (\<exists>c \<in> set s. (of_char c :: nat) < 32 \<or> (of_char c :: nat) = 127)"

text \<open>\<^verbatim>\<open>validOptionalPort\<close>: empty, or a colon followed by digits only.\<close>

definition validOptionalPort :: "string \<Rightarrow> bool" where
  "validOptionalPort port =
     (case port of [] \<Rightarrow> True | c # ds \<Rightarrow> c = CHR '':'' \<and> list_all is_digit ds)"

text \<open>The part of a host from its last colon on; empty when it has none.\<close>

definition colon_port :: "string \<Rightarrow> string" where
  "colon_port host =
     (if CHR '':'' \<in> set host
      then CHR '':'' # rev (takeWhile (\<lambda>c. c \<noteq> CHR '':'') (rev host)) else [])"

definition parseHost :: "string \<Rightarrow> go_error + string" where
  "parseHost host =
     (if \<not> validOptionalPort (colon_port host) then Inl (ErrorString ''invalid port after host'')
      else Inr host)"

definition empty_url :: url where
  "empty_url =
     \<lparr>Scheme = [], Opaque = [], Host = [], Path = [], ForceQuery = False,
      RawQuery = [], Fragment = [], OmitHost = False\<rparr>"

text \<open>
  The authority and path part of \<^verbatim>\<open>parse\<close> of net/url, entered once the scheme and
  the query are split off and the URL is not opaque.
\<close>

definition parse_authority_path :: "url \<Rightarrow> string \<Rightarrow> go_error + url" where
  "parse_authority_path u rest =
     (if (Scheme u \<noteq> [] \<or> \<not> HasPrefix rest ''///'') \<and> HasPrefix rest ''//'' then
        (let a = drop 2 rest;
             authority = takeWhile (\<lambda>c. c \<noteq> CHR ''/'') a;
             rest' = dropWhile (\<lambda>c. c \<noteq> CHR ''/'') a
         in (case parseHost authority of
               Inl err \<Rightarrow> Inl err
             | Inr h \<Rightarrow> Inr (u\<lparr>Host := h, Path := rest'\<rparr>)))
      else if Scheme u \<noteq> [] \<and> HasPrefix rest ''/'' then Inr (u\<lparr>OmitHost := True, Path := rest\<rparr>)
      else Inr (u\<lparr>Path := rest\<rparr>))"

text \<open>\<^verbatim>\<open>parse(rawURL, false)\<close> of net/url.\<close>

definition parse :: "string \<Rightarrow> go_error + url" where
  "parse rawURL =
     (if stringContainsCTLByte rawURL
      then Inl (ErrorString ''net/url: invalid control character in URL'')
      else if rawURL = ''*'' then Inr (empty_url\<lparr>Path := ''*''\<rparr>)
      else (case getScheme rawURL of
              Inl err \<Rightarrow> Inl err
            | Inr (scheme, rest0) \<Rightarrow>
                (let force = (rest0 \<noteq> [] \<and> last rest0 = CHR ''?'' \<and>
                              count_list rest0 (CHR ''?'') = 1);
                     rest = (if force then butlast rest0 else fst (Cut rest0 (CHR ''?'')));
                     query = (if force then [] else fst (snd (Cut rest0 (CHR ''?''))));
                     u = empty_url\<lparr>Scheme := map to_lower scheme, ForceQuery := force,
                                    RawQuery := query\<rparr>
                 in if \<not> HasPrefix rest ''/'' then
                      (if Scheme u \<noteq> [] then Inr (u\<lparr>Opaque := rest\<rparr>)
                       else if CHR '':'' \<in> set (fst (Cut rest (CHR ''/'')))
                         then Inl (ErrorString ''first path segment in URL cannot contain colon'')
                       else parse_authority_path u rest)
                    else parse_authority_path u rest)))"

text \<open>
  \<^verbatim>\<open>url.Parse\<close>: the fragment is cut off first; an error of \<^verbatim>\<open>parse\<close> comes back
  inside a \<^verbatim>\<open>*url.Error\<close>.
\<close>

definition url_Parse :: "string \<Rightarrow> go_error + url" where
  "url_Parse rawURL =
     (case Cut rawURL (CHR ''#'') of
        (u, frag, found) \<Rightarrow>
          (case parse u of
             Inl err \<Rightarrow> Inl (Wrapped ''parse'' err)
           | Inr url \<Rightarrow> Inr (url\<lparr>Fragment := frag\<rparr>)))"

text \<open>\<^verbatim>\<open>(*url.URL).String\<close>, in the order in which the library writes the parts.\<close>

definition url_String :: "url \<Rightarrow> string" where
  "url_String u =
     (let scheme_part = (if Scheme u \<noteq> [] then Scheme u @ '':'' else []);
          host_part =
            (if Scheme u \<noteq> [] \<or> Host u \<noteq> [] then
               (if OmitHost u \<and> Host u = [] then []
                else (if Host u \<noteq> [] \<or> Path u \<noteq> [] then ''//'' else []) @ Host u)
             else []);
          slash = (if Path u \<noteq> [] \<and> hd (Path u) \<noteq> CHR ''/'' \<and> Host u \<noteq> [] then ''/'' else []);
          dot = (if scheme_part @ host_part @ slash = [] \<and>
                    CHR '':'' \<in> set (fst (Cut (Path u) (CHR ''/''))) then ''./'' else []);
          hier = (if Opaque u \<noteq> [] then Opaque u else host_part @ slash @ dot @ Path u)
      in scheme_part @ hier @
         (if ForceQuery u \<or> RawQuery u \<noteq> [] then CHR ''?'' # RawQuery u else []) @
         (if Fragment u \<noteq> [] then CHR ''#'' # Fragment u else []))"

text \<open>The bytes of an HTTP token: letters, digits and the marks of RFC 7230.\<close>

definition is_tchar :: "char \<Rightarrow> bool" where
  "is_tchar c = (is_letter c \<or> is_digit c \<or> c \<in> set ''!#$%&*+-.^_`|~'' \<or> c = CHR 0x27)"

text \<open>\<^verbatim>\<open>validMethod\<close> of net/http: a non-empty token.\<close>

definition validMethod :: "string \<Rightarrow> bool" where
  "validMethod m = (m \<noteq> [] \<and> list_all is_tchar m)"

text \<open>
  \<^verbatim>\<open>textproto.CanonicalMIMEHeaderKey\<close>: a key with a byte outside the token bytes is
  returned as it is; otherwise the first letter and every letter after a hyphen is
  made upper case and every other letter lower case.
\<close>

fun canonical_from :: "bool \<Rightarrow> string \<Rightarrow> string" where
  "canonical_from upper [] = []"
| "canonical_from upper (c # cs) =
     (if upper then to_upper c else to_lower c) # canonical_from (c = CHR ''-'') cs"

definition CanonicalMIMEHeaderKey :: "string \<Rightarrow> string" where
  "CanonicalMIMEHeaderKey s = (if list_all is_tchar s then canonical_from True s else s)"

definition golib :: stdlib where
  "golib = \<lparr>Parse = url_Parse, URLString = url_String, ValidMethod = validMethod,
             CanonicalKey = CanonicalMIMEHeaderKey\<rparr>"

section \<open>Example values\<close>

text \<open>The backend list \<^verbatim>\<open>LoadConfig\<close> and \<^verbatim>\<open>GetBackends\<close> fall back to.\<close>

definition default_backends :: "string list" where
  "default_backends =
     [''http://localhost:8081'', ''http://localhost:8082'', ''http://localhost:8083'']"

definition http_url :: "string \<Rightarrow> url" where
  "http_url h = empty_url\<lparr>Scheme := ''http'', Host := h\<rparr>"

text \<open>The balancer both constructors build from the default list and a nil timeout.\<close>

definition lb3 :: LoadBalancer where
  "lb3 =
     \<lparr>backends = map http_url [''localhost:8081'', ''localhost:8082'', ''localhost:8083''],
      counter = 0, timeout = 5 * Second, client = new_client\<rparr>"

text \<open>A request, and three answers of a backend, to run the handler on.\<close>

definition example_request :: Request where
  "example_request =
     \<lparr>Method = ''GET'', URL = empty_url\<lparr>Path := ''/a'', RawQuery := ''x=1''\<rparr>,
      RequestURI = ''/a?x=1'', RequestHost = ''lb.example'',
      RequestHeader = [''Cookie'' \<mapsto> [''s=1''], ''Connection'' \<mapsto> [''keep-alive'']],
      RequestBody = Body [] None, RequestTimeout = None\<rparr>"

text \<open>The request the handler builds from \<open>example_request\<close> for the first default backend.\<close>

definition example_outbound :: Request where
  "example_outbound =
     \<lparr>Method = ''GET'',
      URL = empty_url\<lparr>Scheme := ''http'', Host := ''localhost:8081'', Path := ''/a'', RawQuery := ''x=1''\<rparr>,
      RequestURI = [], RequestHost = ''localhost:8081'',
      RequestHeader = [''Cookie'' \<mapsto> [''s=1''], ''Connection'' \<mapsto> [''keep-alive'']],
      RequestBody = Body [] None, RequestTimeout = Some (5 * Second)\<rparr>"






section \<open>Notions the claims are stated with\<close>

text \<open>
  What the loops of the two constructors accept: \<^verbatim>\<open>New\<close> a string that
  \<^verbatim>\<open>url.Parse\<close> accepts with the scheme http or https, \<^verbatim>\<open>NewLB\<close> any string
  that \<^verbatim>\<open>url.Parse\<close> accepts.
\<close>

definition http_backend :: "stdlib \<Rightarrow> string \<Rightarrow> bool" where
  "http_backend lib b =
     (case Parse lib b of Inl err \<Rightarrow> False | Inr u \<Rightarrow> Scheme u = ''http'' \<or> Scheme u = ''https'')"

definition parses :: "stdlib \<Rightarrow> string \<Rightarrow> bool" where
  "parses lib b = (case Parse lib b of Inl err \<Rightarrow> False | Inr u \<Rightarrow> True)"



section \<open>Construction\<close>

lemma New_parse_length:
  "New_parse lib bs acc = Inr us \<Longrightarrow> length us = length acc + length bs"
  by (induction bs arbitrary: acc) (auto split: sum.splits if_splits)

lemma NewLB_parse_length:
  "NewLB_parse lib bs acc = Inr us \<Longrightarrow> length us = length acc + length bs"
  by (induction bs arbitrary: acc) (auto split: sum.splits if_splits)

lemma New_backends:
  "New lib bs tmo = Inr lb \<Longrightarrow> length (backends lb) = length bs \<and> 2 \<le> length bs \<and> counter lb = 0"
  by (auto simp: New_def Let_def split: if_splits sum.splits dest: New_parse_length)

lemma NewLB_backends:
  "NewLB lib bs tmo = Inr lb \<Longrightarrow> length (backends lb) = length bs \<and> 2 \<le> length bs \<and> counter lb = 0"
  by (auto simp: NewLB_def Let_def split: if_splits sum.splits dest: NewLB_parse_length)

section \<open>Selection\<close>

lemma getNextBackend_state:
  "snd (getNextBackend lb) = lb\<lparr>counter := counter lb + 1\<rparr>"
  by (simp add: getNextBackend_def Let_def)

lemma after_calls_eq:
  "after_calls k lb = lb\<lparr>counter := counter lb + of_nat k\<rparr>"
  by (induction k) (simp_all add: getNextBackend_state add.assoc)

lemma unat_of_nat_len:
  assumes "n < 2 ^ 64"
  shows "unat (of_nat n :: 64 word) = n"
  using assms by (simp add: unat_of_nat)

lemma getNextBackend_index:
  assumes "0 < length (backends lb)" and "length (backends lb) < 2 ^ 64"
  shows "fst (getNextBackend lb) = Inr (backends lb ! (unat (counter lb) mod length (backends lb)))"
proof -
  let ?N = "length (backends lb)"
  have N: "unat (of_nat ?N :: 64 word) = ?N"
    using assms(2) by (rule unat_of_nat_len)
  then have nz: "(of_nat ?N :: 64 word) \<noteq> 0"
    using assms(1) by (metis less_numeral_extra(3) unat_0)
  have idx: "unat (counter lb mod of_nat ?N) = unat (counter lb) mod ?N"
    by (simp add: unat_mod N)
  have "unat (counter lb) mod ?N < ?N"
    using assms(1) by simp
  then show ?thesis
    using nz idx by (simp add: getNextBackend_def Let_def)
qed

lemma kth_call_index:
  assumes "counter lb = 0" and "0 < length (backends lb)" and "length (backends lb) < 2 ^ 64"
  shows "kth_call lb k = Inr (backends lb ! ((k mod 2 ^ 64) mod length (backends lb)))"
proof -
  have "unat (of_nat k :: 64 word) = k mod 2 ^ 64"
    by (simp add: unat_of_nat)
  then show ?thesis
    using assms getNextBackend_index [of "after_calls k lb"]
    by (simp add: kth_call_def after_calls_eq)
qed

lemma kth_call_any_counter:
  assumes "0 < length (backends lb)" and "length (backends lb) < 2 ^ 64"
  shows "kth_call lb k = Inr (backends lb ! (unat (counter lb + of_nat k) mod length (backends lb)))"
  using assms getNextBackend_index [of "after_calls k lb"]
  by (simp add: kth_call_def after_calls_eq)

lemma after_calls_backends: "backends (after_calls k lb) = backends lb"
  by (simp add: after_calls_eq)

lemma ServeHTTP_backends: "backends (snd (ServeHTTP lib Do e lb w r)) = backends lb"
  using getNextBackend_state [of lb]
  by (auto simp: ServeHTTP_def split: prod.splits sum.splits)

lemma map_nth_mod_rotate:
  assumes "xs \<noteq> []"
  shows "map (\<lambda>j. xs ! (j mod length xs)) [k ..< k + length xs] = rotate (k mod length xs) xs"
proof (rule nth_equalityI)
  show "length (map (\<lambda>j. xs ! (j mod length xs)) [k ..< k + length xs]) =
        length (rotate (k mod length xs) xs)"
    by simp
next
  fix i
  assume "i < length (map (\<lambda>j. xs ! (j mod length xs)) [k ..< k + length xs])"
  then have i: "i < length xs" by simp
  then have "rotate (k mod length xs) xs ! i = xs ! ((k mod length xs + i) mod length xs)"
    by (simp add: nth_rotate)
  also have "\<dots> = xs ! ((k + i) mod length xs)"
    by (simp add: mod_add_left_eq)
  finally show "map (\<lambda>j. xs ! (j mod length xs)) [k ..< k + length xs] ! i =
        rotate (k mod length xs) xs ! i"
    using i by simp
qed

section \<open>The example balancer\<close>

lemma New_default: "New golib default_backends None = Inr lb3"
  by code_simp

lemma NewLB_default: "NewLB golib default_backends None = Inr lb3"
  by code_simp

lemma lb3_facts: "counter lb3 = 0" "length (backends lb3) = 3" "distinct (backends lb3)"
  by (simp_all add: lb3_def http_url_def empty_url_def)

section \<open>Order of the backends\<close>

lemma New_parse_map:
  "New_parse lib bs acc = Inr us \<Longrightarrow> map Inr us = map Inr acc @ map (Parse lib) bs"
proof (induction bs arbitrary: acc)
  case Nil
  then show ?case by simp
next
  case (Cons b bs)
  then show ?case
    by (auto split: sum.splits if_splits)
qed

lemma NewLB_parse_map:
  "NewLB_parse lib bs acc = Inr us \<Longrightarrow> map Inr us = map Inr acc @ map (Parse lib) bs"
proof (induction bs arbitrary: acc)
  case Nil
  then show ?case by simp
next
  case (Cons b bs)
  then show ?case
    by (auto split: sum.splits if_splits)
qed

lemma New_order: "New lib bs tmo = Inr lb \<Longrightarrow> map (Parse lib) bs = map Inr (backends lb)"
  by (auto simp: New_def Let_def split: if_splits sum.splits dest: New_parse_map)

lemma NewLB_order: "NewLB lib bs tmo = Inr lb \<Longrightarrow> map (Parse lib) bs = map Inr (backends lb)"
  by (auto simp: NewLB_def Let_def split: if_splits sum.splits dest: NewLB_parse_map)

section \<open>Round robin\<close>

text \<open>
  Claim C1, as the specification states it: call number \<open>k\<close> of \<^verbatim>\<open>getNextBackend\<close>
  on a balancer built over \<open>N\<close> backends returns the backend at index \<open>k mod N\<close>.
  The counter has 64 bits. On the balancer built from the three default backends,
  call number \<open>2 ^ 64\<close> finds the counter back at 0 and returns the first backend,
  while \<open>2 ^ 64 mod 3 = 1\<close> names the second.
\<close>

theorem round_robin_counterexample:
  "New golib default_backends None = Inr lb3 \<and>
   kth_call lb3 (2 ^ 64) = Inr (backends lb3 ! 0) \<and>
   kth_call lb3 (2 ^ 64) \<noteq> Inr (backends lb3 ! (2 ^ 64 mod length default_backends))"
proof -
  have "kth_call lb3 (2 ^ 64) = Inr (backends lb3 ! 0)"
    using kth_call_index [of lb3 "2 ^ 64"] by (simp add: lb3_facts)
  moreover have "backends lb3 ! 0 \<noteq> backends lb3 ! (2 ^ 64 mod length default_backends)"
    by (simp add: lb3_def default_backends_def http_url_def empty_url_def)
  ultimately show ?thesis
    using New_default by simp
qed

text \<open>
  Claim C1, amended: for a balancer that \<^verbatim>\<open>New\<close> or \<^verbatim>\<open>NewLB\<close> built from the list
  \<open>bs\<close> of \<open>N\<close> strings, the backends are the parsed strings in the order of \<open>bs\<close>;
  call number \<open>k\<close> returns the backend at index \<open>k mod N\<close> as long as \<open>k < 2 ^ 64\<close>;
  and \<open>N\<close> consecutive calls that end before the counter wraps return the whole
  list, each backend once, in configured order, starting at index \<open>k mod N\<close>.
\<close>

theorem round_robin_before_wrap:
  assumes "New lib bs tmo = Inr lb \<or> NewLB lib bs tmo = Inr lb"
    and "length bs < 2 ^ 63"
  shows "map (Parse lib) bs = map Inr (backends lb) \<and>
         (k < 2 ^ 64 \<longrightarrow> kth_call lb k = Inr (backends lb ! (k mod length bs))) \<and>
         (k + length bs \<le> 2 ^ 64 \<longrightarrow>
            map (kth_call lb) [k ..< k + length bs] = map Inr (rotate (k mod length bs) (backends lb)))"
proof -
  let ?N = "length (backends lb)"
  have len: "?N = length bs" "2 \<le> length bs" "counter lb = 0"
    using assms(1) New_backends NewLB_backends by blast+
  have small: "?N < 2 ^ 64"
    using assms(2) len by simp
  have pos: "0 < ?N"
    using len by linarith
  have call: "kth_call lb j = Inr (backends lb ! (j mod ?N))" if "j < 2 ^ 64" for j
    using kth_call_index [OF len(3) pos small, of j] that by simp
  have order: "map (Parse lib) bs = map Inr (backends lb)"
    using assms(1) New_order NewLB_order by blast
  have run: "map (kth_call lb) [k ..< k + ?N] = map Inr (rotate (k mod ?N) (backends lb))"
    if "k + ?N \<le> 2 ^ 64"
  proof -
    have "map (kth_call lb) [k ..< k + ?N] = map (\<lambda>j. Inr (backends lb ! (j mod ?N))) [k ..< k + ?N]"
      using that call by (intro map_cong) auto
    also have "\<dots> = map Inr (map (\<lambda>j. backends lb ! (j mod ?N)) [k ..< k + ?N])"
      by simp
    also have "\<dots> = map Inr (rotate (k mod ?N) (backends lb))"
      using pos by (simp only: map_nth_mod_rotate [of "backends lb" k, OF length_greater_0_conv [THEN iffD1]])
    finally show ?thesis .
  qed
  show ?thesis
    using order call run len(1) by simp
qed

theorem round_robin_before_wrap_witness:
  "kth_call lb3 4 = Inr (http_url ''localhost:8082'') \<and>
   map (kth_call lb3) [4 ..< 7] =
     map Inr [http_url ''localhost:8082'', http_url ''localhost:8083'', http_url ''localhost:8081'']"
proof -
  have built: "New golib default_backends None = Inr lb3 \<or> NewLB golib default_backends None = Inr lb3"
    using New_default by simp
  have short: "length default_backends < 2 ^ 63"
    by (simp add: default_backends_def)
  have rot: "rotate 1 (backends lb3) =
      [http_url ''localhost:8082'', http_url ''localhost:8083'', http_url ''localhost:8081'']"
    by (simp add: lb3_def rotate1_def)
  show ?thesis
    using round_robin_before_wrap [OF built short, of 4] rot
    by (simp add: default_backends_def lb3_def)
qed

section \<open>Construction with too few backends\<close>

lemma New_parse_no_few: "New_parse lib bs acc \<noteq> Inl ErrTooFewBackends"
  by (induction bs arbitrary: acc) (auto split: sum.splits)

lemma NewLB_parse_no_few: "NewLB_parse lib bs acc \<noteq> Inl ErrTooFewBackends"
  by (induction bs arbitrary: acc) (auto split: sum.splits)

text \<open>
  Claim C2: both constructors answer a list of fewer than two backend strings with
  the error of the length check, so with no balancer, and a list of two or more
  strings never with that error.
\<close>

theorem too_few_backends:
  "(New lib bs tmo = Inl ErrTooFewBackends \<longleftrightarrow> length bs < 2) \<and>
   (NewLB lib bs tmo = Inl ErrTooFewBackends \<longleftrightarrow> length bs < 2)"
  using New_parse_no_few [of lib bs "[]"] NewLB_parse_no_few [of lib bs "[]"]
  by (auto simp: New_def NewLB_def Let_def split: sum.splits)

section \<open>The index is in bounds\<close>

text \<open>
  Claim C8: a balancer that a constructor returned has at least two backends;
  neither \<^verbatim>\<open>getNextBackend\<close> nor \<^verbatim>\<open>ServeHTTP\<close> changes the backend list; and every
  call of \<^verbatim>\<open>getNextBackend\<close>, after any number of earlier calls, returns a backend at
  an index inside the list: the division and the indexing never panic.
\<close>

theorem index_in_bounds:
  assumes "New lib bs tmo = Inr lb \<or> NewLB lib bs tmo = Inr lb"
    and "length bs < 2 ^ 63"
  shows "2 \<le> length (backends lb) \<and>
         backends (after_calls k lb) = backends lb \<and>
         backends (snd (ServeHTTP lib' Do e (after_calls k lb) w r)) = backends lb \<and>
         (\<exists>i < length (backends lb). kth_call lb k = Inr (backends lb ! i))"
proof -
  have len: "length (backends lb) = length bs" "2 \<le> length bs"
    using assms(1) New_backends NewLB_backends by blast+
  have small: "length (backends lb) < 2 ^ 64"
    using assms(2) len by simp
  have pos: "0 < length (backends lb)"
    using len by linarith
  have "kth_call lb k = Inr (backends lb ! (unat (counter lb + of_nat k) mod length (backends lb)))"
    using pos small by (rule kth_call_any_counter)
  moreover have "unat (counter lb + of_nat k) mod length (backends lb) < length (backends lb)"
    using pos by simp
  ultimately have "\<exists>i < length (backends lb). kth_call lb k = Inr (backends lb ! i)"
    by blast
  then show ?thesis
    using len by (simp add: after_calls_backends ServeHTTP_backends)
qed

theorem index_in_bounds_witness:
  "2 \<le> length (backends lb3) \<and>
   backends (after_calls 7 lb3) = backends lb3 \<and>
   (\<exists>i < length (backends lb3). kth_call lb3 7 = Inr (backends lb3 ! i))"
proof -
  have built: "New golib default_backends None = Inr lb3 \<or> NewLB golib default_backends None = Inr lb3"
    using NewLB_default by simp
  have short: "length default_backends < 2 ^ 63"
    by (simp add: default_backends_def)
  show ?thesis
    using index_in_bounds [OF built short, of 7] by simp
qed

section \<open>The counter wraps around\<close>

text \<open>
  Claim C10: the counter is a 64-bit unsigned value that wraps around. Call number
  \<open>k\<close> returns the backend at index \<open>(k mod 2 ^ 64) mod N\<close>, and the counter after
  \<open>k\<close> calls is \<open>k mod 2 ^ 64\<close>, so it grows only modulo \<open>2 ^ 64\<close>. Call number
  \<open>2 ^ 64\<close> returns the first backend again; when \<open>N\<close> does not divide \<open>2 ^ 64\<close>
  and the backends differ from each other, that is not the backend that follows the
  one of call \<open>2 ^ 64 - 1\<close> in configured order.
\<close>

theorem counter_wraps:
  assumes "counter lb = 0" and "0 < length (backends lb)" and "length (backends lb) < 2 ^ 63"
  shows "kth_call lb k = Inr (backends lb ! ((k mod 2 ^ 64) mod length (backends lb))) \<and>
         unat (counter (after_calls k lb)) = k mod 2 ^ 64 \<and>
         kth_call lb (2 ^ 64) = Inr (backends lb ! 0) \<and>
         (\<not> length (backends lb) dvd 2 ^ 64 \<and> distinct (backends lb) \<longrightarrow>
            kth_call lb (2 ^ 64) \<noteq>
              Inr (backends lb ! (Suc ((2 ^ 64 - 1) mod length (backends lb)) mod length (backends lb))))"
proof -
  let ?N = "length (backends lb)"
  have small: "?N < 2 ^ 64"
    using assms(3) by simp
  have call: "kth_call lb j = Inr (backends lb ! ((j mod 2 ^ 64) mod ?N))" for j
    using assms(1,2) small by (rule kth_call_index)
  have cnt: "unat (counter (after_calls k lb)) = k mod 2 ^ 64"
    using assms(1) by (simp add: after_calls_eq unat_of_nat)
  have wrap: "kth_call lb (2 ^ 64) = Inr (backends lb ! 0)"
    using call [of "2 ^ 64"] by simp
  have broken: "kth_call lb (2 ^ 64) \<noteq> Inr (backends lb ! (Suc ((2 ^ 64 - 1) mod ?N) mod ?N))"
    if nd: "\<not> ?N dvd 2 ^ 64" and d: "distinct (backends lb)"
  proof -
    have "Suc ((2 ^ 64 - 1) mod ?N) mod ?N = Suc (2 ^ 64 - 1) mod ?N"
      by (simp add: mod_Suc_eq)
    also have "\<dots> = 2 ^ 64 mod ?N"
      by simp
    finally have s: "Suc ((2 ^ 64 - 1) mod ?N) mod ?N = 2 ^ 64 mod ?N" .
    have nz: "2 ^ 64 mod ?N \<noteq> 0"
      using nd by (simp add: dvd_eq_mod_eq_0)
    have lt: "2 ^ 64 mod ?N < ?N"
      using assms(2) by simp
    have "backends lb ! 0 \<noteq> backends lb ! (2 ^ 64 mod ?N)"
      using d nz lt assms(2) by (simp add: nth_eq_iff_index_eq)
    then show ?thesis
      using wrap s by simp
  qed
  show ?thesis
    using call cnt wrap broken by blast
qed

theorem counter_wraps_witness:
  "kth_call lb3 (2 ^ 64 - 1) = Inr (http_url ''localhost:8081'') \<and>
   kth_call lb3 (2 ^ 64) = Inr (http_url ''localhost:8081'') \<and>
   kth_call lb3 (2 ^ 64) \<noteq> Inr (http_url ''localhost:8082'') \<and>
   kth_call lb3 (2 ^ 64 + 1) = Inr (http_url ''localhost:8082'')"
proof -
  have h: "counter lb3 = 0" "0 < length (backends lb3)" "length (backends lb3) < 2 ^ 63"
    by (simp_all add: lb3_facts)
  have nd: "\<not> length (backends lb3) dvd 2 ^ 64 \<and> distinct (backends lb3)"
    by (simp add: lb3_facts)
  show ?thesis
    using counter_wraps [OF h, of "2 ^ 64 - 1"] counter_wraps [OF h, of "2 ^ 64"]
      counter_wraps [OF h, of "2 ^ 64 + 1"] nd
    by (simp add: lb3_def http_url_def empty_url_def)
qed

section \<open>The response writer\<close>

lemma WriteHeader_fresh: "status w = None \<Longrightarrow> WriteHeader w code = w\<lparr>status := Some code\<rparr>"
  by (simp add: WriteHeader_def)

lemma http_Error_status: "status w = None \<Longrightarrow> status (http_Error lib w msg code) = Some code"
  by (simp add: http_Error_def Let_def WriteHeader_def Write_def)

lemma http_Error_written: "written (http_Error lib w msg code) = written w @ msg @ [CHR 0x0A]"
  by (simp add: http_Error_def Let_def WriteHeader_def Write_def)







section \<open>Copying the response header\<close>





section \<open>The branches of the handler\<close>

lemma ServeHTTP_served:
  assumes "ServeHTTP lib Do elapsed lb w r = (Inr s, lb')"
  shows "\<exists>target. getNextBackend lb = (Inr target, lb') \<and>
           s = ServeHTTP_target lib Do elapsed lb target w r"
  using assms by (auto simp: ServeHTTP_def split: prod.splits sum.splits)

lemma target_failed:
  assumes "s = ServeHTTP_target lib Do elapsed lb target w r"
    and "sent s = Some req" and "Do req = Inl err"
  shows "s = (if errors_Is err DeadlineExceeded then
               \<lparr>writer = http_Error lib w
                  (''Backend request timed out after '' @ fmt_d (whole_seconds elapsed) @ ''s'') 504,
                sent = Some req,
                logged = [LogTimeout (Host target) (whole_seconds elapsed)]\<rparr>
             else
               \<lparr>writer = http_Error lib w ''Service temporarily unavailable'' 502,
                sent = Some req,
                logged = [LogRequestFailed (Host target) err]\<rparr>)"
  using assms by (auto simp: ServeHTTP_target_def Let_def split: sum.splits if_splits)



lemma whole_seconds_bounds:
  assumes "0 \<le> d"
  shows "whole_seconds d * Second \<le> d \<and> d < (whole_seconds d + 1) * Second"
proof -
  have ws: "whole_seconds d = d div 1000000000"
    using assms by (cases "d = 0") (simp_all add: whole_seconds_def go_div_def Second_def)
  have "d div 1000000000 * 1000000000 \<le> d"
    by simp
  moreover have "d < (d div 1000000000 + 1) * 1000000000"
  proof -
    have m: "d mod 1000000000 < 1000000000"
      by simp
    have e: "d = d div 1000000000 * 1000000000 + d mod 1000000000"
      by simp
    have "(d div 1000000000 + 1) * 1000000000 = d div 1000000000 * 1000000000 + 1000000000"
      by (simp add: distrib_right)
    then show ?thesis
      using m e by linarith
  qed
  ultimately show ?thesis
    by (simp add: ws Second_def)
qed

section \<open>Runs of the examples\<close>

lemmas golib_defs =
  golib_def url_Parse_def parse_def getScheme_def is_letter_def is_digit_def
  stringContainsCTLByte_def parse_authority_path_def HasPrefix_def parseHost_def
  colon_port_def validOptionalPort_def empty_url_def to_lower_def is_upper_def
  url_String_def validMethod_def is_tchar_def http_url_def removeEmptyPort_def
  CanonicalMIMEHeaderKey_def to_upper_def is_lower_def


lemma ServeHTTP_lb3:
  "ServeHTTP lib Do e lb3 w r =
     (Inr (ServeHTTP_target lib Do e lb3 (http_url ''localhost:8081'') w r), lb3\<lparr>counter := 1\<rparr>)"
  by (simp add: ServeHTTP_def getNextBackend_def lb3_def Let_def)


lemma new_request_example:
  "NewRequestWithContext golib ctx ''GET'' (url_String (http_url ''localhost:8081'') @ ''/a?x=1'') b =
     Inr \<lparr>Method = ''GET'',
      URL = empty_url\<lparr>Scheme := ''http'', Host := ''localhost:8081'', Path := ''/a'', RawQuery := ''x=1''\<rparr>,
      RequestURI = [], RequestHost = ''localhost:8081'',
      RequestHeader = Map.empty, RequestBody = b, RequestTimeout = ctx\<rparr>"
  by (simp add: NewRequestWithContext_def golib_defs Let_def)


lemma sent_example:
  "sent (ServeHTTP_target golib Do e lb3 (http_url ''localhost:8081'') w example_request) = Some example_outbound"
  using new_request_example [of "Some (5 * Second)" "Body [] None"]
  by (simp add: ServeHTTP_target_def Let_def example_request_def example_outbound_def golib_def
      WithTimeout_def lb3_def split: sum.splits)


section \<open>Construction rejects malformed backends\<close>

text \<open>
  What each constructor accepts, for every \<^verbatim>\<open>url.Parse\<close>: \<^verbatim>\<open>New\<close> succeeds exactly
  on two or more strings that all parse with the scheme http or https; \<^verbatim>\<open>NewLB\<close>
  succeeds exactly on two or more strings that all parse, whatever their scheme.
\<close>

lemma New_parse_ok_iff:
  "(\<exists>us. New_parse lib bs acc = Inr us) \<longleftrightarrow> list_all (http_backend lib) bs"
  by (induction bs arbitrary: acc) (auto simp: http_backend_def split: sum.splits)

lemma NewLB_parse_ok_iff:
  "(\<exists>us. NewLB_parse lib bs acc = Inr us) \<longleftrightarrow> list_all (parses lib) bs"
  by (induction bs arbitrary: acc) (auto simp: parses_def split: sum.splits)

lemma New_succeeds_iff:
  "(\<exists>lb. New lib bs tmo = Inr lb) \<longleftrightarrow> 2 \<le> length bs \<and> list_all (http_backend lib) bs"
proof -
  have "(\<exists>lb. New lib bs tmo = Inr lb) \<longleftrightarrow> 2 \<le> length bs \<and> (\<exists>us. New_parse lib bs [] = Inr us)"
    by (auto simp: New_def Let_def split: sum.splits)
  then show ?thesis
    by (simp add: New_parse_ok_iff)
qed

lemma NewLB_succeeds_iff:
  "(\<exists>lb. NewLB lib bs tmo = Inr lb) \<longleftrightarrow> 2 \<le> length bs \<and> list_all (parses lib) bs"
proof -
  have "(\<exists>lb. NewLB lib bs tmo = Inr lb) \<longleftrightarrow> 2 \<le> length bs \<and> (\<exists>us. NewLB_parse lib bs [] = Inr us)"
    by (auto simp: NewLB_def Let_def split: sum.splits)
  then show ?thesis
    by (simp add: NewLB_parse_ok_iff)
qed

text \<open>
  Claim C3: construction returns an error for a list that holds a string which is
  not a valid absolute URL or whose scheme is not http or https, with both
  constructors. \<^verbatim>\<open>New\<close> does so. \<^verbatim>\<open>NewLB\<close> has no scheme check: on
  \<^verbatim>\<open>["ftp://x", "ftp://y"]\<close> and on \<^verbatim>\<open>["not a url", "http://localhost:8081"]\<close>,
  which \<^verbatim>\<open>New\<close> rejects, it returns a balancer.
\<close>

theorem NewLB_skips_scheme_check:
  "New golib [''ftp://x'', ''ftp://y''] None = Inl (ErrBackendScheme ''ftp://x'') \<and>
   NewLB golib [''ftp://x'', ''ftp://y''] None =
     Inr \<lparr>backends = [empty_url\<lparr>Scheme := ''ftp'', Host := ''x''\<rparr>,
                       empty_url\<lparr>Scheme := ''ftp'', Host := ''y''\<rparr>],
          counter = 0, timeout = 5 * Second, client = new_client\<rparr> \<and>
   New golib [''not a url'', ''http://localhost:8081''] None = Inl (ErrBackendScheme ''not a url'') \<and>
   NewLB golib [''not a url'', ''http://localhost:8081''] None =
     Inr \<lparr>backends = [empty_url\<lparr>Path := ''not a url''\<rparr>, http_url ''localhost:8081''],
          counter = 0, timeout = 5 * Second, client = new_client\<rparr>"
  by code_simp

section \<open>Timeouts\<close>

text \<open>
  Claim C4: when the upstream call fails and \<^verbatim>\<open>errors.Is(err, context.DeadlineExceeded)\<close>
  holds, the caller receives status 504 and the message
  \<^verbatim>\<open>Backend request timed out after <n>s\<close>, where \<open>n\<close> is the whole seconds of the
  elapsed time (\<open>n\<close> seconds have passed and \<open>n + 1\<close> have not); and a failed
  upstream call gets status 504, and the timeout line in the log, for no other
  error.
\<close>

theorem timeout_classification:
  assumes "ServeHTTP lib Do elapsed lb w r = (Inr s, lb')"
    and "status w = None"
    and "sent s = Some req" and "Do req = Inl err"
  shows "(errors_Is err DeadlineExceeded \<longrightarrow>
            status (writer s) = Some 504 \<and>
            written (writer s) =
              written w @ ''Backend request timed out after '' @
              fmt_d (whole_seconds elapsed) @ ''s'' @ [CHR 0x0A] \<and>
            (0 \<le> elapsed \<longrightarrow>
               whole_seconds elapsed * Second \<le> elapsed \<and>
               elapsed < (whole_seconds elapsed + 1) * Second)) \<and>
         (status (writer s) = Some 504 \<longleftrightarrow> errors_Is err DeadlineExceeded) \<and>
         ((\<exists>h n. logged s = [LogTimeout h n]) \<longleftrightarrow> errors_Is err DeadlineExceeded)"
proof -
  obtain target where t: "s = ServeHTTP_target lib Do elapsed lb target w r"
    using ServeHTTP_served [OF assms(1)] by blast
  note s = target_failed [OF t assms(3,4)]
  show ?thesis
  proof (cases "errors_Is err DeadlineExceeded")
    case True
    then show ?thesis
      using s assms(2) whole_seconds_bounds [of elapsed]
      by (simp add: http_Error_status http_Error_written)
  next
    case False
    then show ?thesis
      using s assms(2) by (simp add: http_Error_status)
  qed
qed

theorem timeout_classification_witness:
  "status (writer (ServeHTTP_target golib (\<lambda>q. Inl (Wrapped ''Get'' DeadlineExceeded)) 5000123456 lb3
             (http_url ''localhost:8081'') new_writer example_request)) = Some 504 \<and>
   written (writer (ServeHTTP_target golib (\<lambda>q. Inl (Wrapped ''Get'' DeadlineExceeded)) 5000123456 lb3
             (http_url ''localhost:8081'') new_writer example_request)) =
     ''Backend request timed out after 5s'' @ [CHR 0x0A]"
proof -
  let ?Do = "\<lambda>q::Request. (Inl (Wrapped ''Get'' DeadlineExceeded) :: go_error + Response)"
  let ?s = "ServeHTTP_target golib ?Do 5000123456 lb3 (http_url ''localhost:8081'') new_writer example_request"
  have run: "ServeHTTP golib ?Do 5000123456 lb3 new_writer example_request = (Inr ?s, lb3\<lparr>counter := 1\<rparr>)"
    by (rule ServeHTTP_lb3)
  have fresh: "status new_writer = None"
    by (simp add: new_writer_def)
  have snt: "sent ?s = Some example_outbound"
    by (rule sent_example)
  have ans: "?Do example_outbound = Inl (Wrapped ''Get'' DeadlineExceeded)"
    by simp
  have dl: "errors_Is (Wrapped ''Get'' DeadlineExceeded) DeadlineExceeded"
    by simp
  have secs: "fmt_d (whole_seconds 5000123456) = ''5''"
    by code_simp
  note p = timeout_classification [OF run fresh snt ans, THEN conjunct1, THEN mp, OF dl]
  have st: "status (writer ?s) = Some 504"
    using p by (rule conjunct1)
  have wr: "written (writer ?s) = ''Backend request timed out after 5s'' @ [CHR 0x0A]"
    using p [THEN conjunct2, THEN conjunct1] by (simp add: secs new_writer_def)
  show ?thesis
    using st wr by (intro conjI)
qed

section \<open>Other upstream failures\<close>



section \<open>Relaying the response\<close>



section \<open>The outbound request\<close>




end
